theory Spec2Isabelle
  imports Complex_Main
begin

section \<open>Conventions\<close>

text \<open>
  The sources are TypeScript. A JavaScript \<open>number\<close> is modelled as a \<open>real\<close>
  (no rounding error, no NaN, no infinities), an instant (\<open>Date\<close>) as its number of
  milliseconds since the epoch (\<open>int\<close>), a JavaScript string as a \<open>string\<close>:
  a list of characters with codes below 256, one character for one UTF-16 code unit.
  React state is a record that every handler takes and returns; the values of
  \<open>Math.random()\<close> and of \<open>new Date()\<close> are arguments of the function that reads them.
\<close>

section \<open>Geofence warning view (UV_GEOFENCE_WARNING)\<close>

subsection \<open>Data\<close>

record GeofenceRule =
  zone_id :: string
  iucn_category :: string
  geometry :: string
  buffer_zone_size :: real
  blur_radius :: real

record GeofenceRulesResponse =
  rules :: "GeofenceRule list"
  default_blur_radius :: real

record LatLng =
  lat :: real
  lng :: real

text \<open>
  The observation draft of the store. The handler copies the draft and overwrites three
  fields; every other field of the draft is the extension part of the record.
\<close>

record ObservationDraft =
  location :: LatLng
  location_precision_meters :: real
  is_private :: bool

text \<open>The \<open>useState\<close> cells of the view that the handlers below read or write.\<close>

record GeofenceState =
  blurRadius :: real
  isInProtectedZone :: bool
  isInBufferZone :: bool
  selectedZone :: "GeofenceRule option"

definition initialGeofenceState :: GeofenceState where
  "initialGeofenceState =
     \<lparr>blurRadius = 500, isInProtectedZone = False, isInBufferZone = False,
      selectedZone = None\<rparr>"

subsection \<open>Distance\<close>

definition deg2rad :: "real \<Rightarrow> real" where
  "deg2rad deg = deg * (pi / 180)"

text \<open>\<open>Math.atan2 y x\<close> on the reals.\<close>

definition atan2 :: "real \<Rightarrow> real \<Rightarrow> real" where
  "atan2 y x =
     (if 0 < x then arctan (y / x)
      else if x < 0 then (if 0 \<le> y then arctan (y / x) + pi else arctan (y / x) - pi)
      else if 0 < y then pi / 2
      else if y < 0 then - (pi / 2)
      else 0)"

definition calculateDistance :: "LatLng \<Rightarrow> LatLng \<Rightarrow> real" where
  "calculateDistance pointA pointB =
     (let R = 6371;
          dLat = deg2rad (lat pointB - lat pointA);
          dLon = deg2rad (lng pointB - lng pointA);
          a = sin (dLat / 2) * sin (dLat / 2) +
              cos (deg2rad (lat pointA)) * cos (deg2rad (lat pointB)) *
              sin (dLon / 2) * sin (dLon / 2);
          c = 2 * atan2 (sqrt a) (sqrt (1 - a))
      in R * c)"

subsection \<open>Zone status\<close>

text \<open>
  The body of the effect that processes the fetched rules, for a distance already
  computed: only \<open>rules[0]\<close> is looked at; \<open>a || b\<close> on numbers is \<open>b\<close> when \<open>a\<close> is 0.
\<close>

definition applyZoneStatus ::
  "real \<Rightarrow> GeofenceRule \<Rightarrow> real \<Rightarrow> GeofenceState \<Rightarrow> GeofenceState" where
  "applyZoneStatus distanceToZone relevantZone dflt st =
     (let st1 =
        (if distanceToZone \<le> buffer_zone_size relevantZone
         then st\<lparr>isInBufferZone := True, isInProtectedZone := False\<rparr>
         else if distanceToZone \<le> buffer_zone_size relevantZone + 1000
         then st\<lparr>isInProtectedZone := True, isInBufferZone := False\<rparr>
         else st)
      in st1\<lparr>selectedZone := Some relevantZone,
             blurRadius := (if blur_radius relevantZone \<noteq> 0 then blur_radius relevantZone
                            else dflt)\<rparr>)"

text \<open>
  The effect itself: it runs when the rules have been fetched and the list is not empty,
  and measures the distance between the coordinate and the map centre.
\<close>

definition processGeofenceRules ::
  "GeofenceRulesResponse option \<Rightarrow> LatLng \<Rightarrow> LatLng \<Rightarrow> GeofenceState \<Rightarrow> GeofenceState" where
  "processGeofenceRules geofenceRules coords mapCenter st =
     (case geofenceRules of
        None \<Rightarrow> st
      | Some g \<Rightarrow>
          (case rules g of
             [] \<Rightarrow> st
           | relevantZone # _ \<Rightarrow>
               applyZoneStatus (calculateDistance coords mapCenter) relevantZone
                 (default_blur_radius g) st))"


subsection \<open>Blurring\<close>

text \<open>
  \<open>parseFloat(x.toFixed(6))\<close>: the integer number of millionths nearest to \<open>x\<close>,
  a tie going away from zero.
\<close>

definition toFixed6 :: "real \<Rightarrow> real" where
  "toFixed6 x =
     (if x < 0 then - (of_int \<lfloor>- x * 1000000 + 1 / 2\<rfloor> / 1000000)
      else of_int \<lfloor>x * 1000000 + 1 / 2\<rfloor> / 1000000)"

text \<open>\<open>rnd1\<close> and \<open>rnd2\<close> are the two values of \<open>Math.random()\<close>, each in \<open>[0, 1)\<close>.\<close>

definition applyCoordinateBlurring :: "LatLng \<Rightarrow> real \<Rightarrow> real \<Rightarrow> real \<Rightarrow> LatLng" where
  "applyCoordinateBlurring coordinates radius rnd1 rnd2 =
     (let latOffset = (radius / 111) * (rnd1 - 0.5);
          lngOffset = (radius / (111 * cos (lat coordinates * pi / 180))) * (rnd2 - 0.5)
      in \<lparr>lat = toFixed6 (lat coordinates + latOffset),
          lng = toFixed6 (lng coordinates + lngOffset)\<rparr>)"


section \<open>Batch submission view (UV_BATCH_SUBMISSION)\<close>

subsection \<open>Data\<close>

text \<open>The field \<open>notes\<close> is named \<open>notes_field\<close> here.\<close>

record BatchObservation =
  user_id :: string
  species_name :: string
  observation_timestamp :: string
  latitude :: real
  longitude :: real
  notes_field :: string
  habitat_type :: string
  is_private :: bool

datatype Severity = SevError | SevWarning

record ValidationIssue =
  row_index :: nat
  field :: string
  message :: string
  severity :: Severity
  suggested_correction :: "string option"

record BatchValidationResult =
  valid_rows :: "BatchObservation list"
  validation_errors :: "ValidationIssue list"
  duplicate_observations :: "BatchObservation list"

text \<open>A CSV row is an object from header to cell; a missing property is \<open>None\<close>.\<close>

type_synonym CsvRow = "string \<rightharpoonup> string"

text \<open>
  What the validation reads from outside: the built-ins \<open>parseFloat\<close> (\<open>None\<close> is NaN),
  \<open>new Date(s).getTime()\<close> (\<open>None\<close> is an invalid date) and \<open>x.toFixed(6)\<close> as a string,
  the instant \<open>new Date()\<close>, the instant \<open>ninetyDaysAgo\<close> that \<open>Date\<close> computes from it
  with \<open>setDate(now.getDate() - 90)\<close> in the local time zone of the browser, and the id of
  the current user.
\<close>

record BatchEnv =
  parseFloat :: "string \<Rightarrow> real option"
  parseDate :: "string \<Rightarrow> int option"
  toFixedStr :: "real \<Rightarrow> string"
  now :: int
  ninetyDaysAgo :: int
  currentUserId :: "string option"

subsection \<open>Validation\<close>

text \<open>JavaScript truthiness of a string property, and \<open>x || ''\<close>.\<close>

definition truthy :: "string option \<Rightarrow> bool" where
  "truthy v = (case v of None \<Rightarrow> False | Some s \<Rightarrow> s \<noteq> [])"

definition orEmpty :: "string option \<Rightarrow> string" where
  "orEmpty v = (case v of None \<Rightarrow> [] | Some s \<Rightarrow> s)"

text \<open>\<open>field.replace('_', ' ')\<close>: the first underscore only.\<close>

fun replaceFirstUnderscore :: "string \<Rightarrow> string" where
  "replaceFirstUnderscore [] = []"
| "replaceFirstUnderscore (c # cs) =
     (if c = CHR ''_'' then CHR '' '' # cs else c # replaceFirstUnderscore cs)"

text \<open>
  The column mapping is an object from field to CSV header, kept as its list of entries;
  \<open>mappedRow[field] = row[csvHeader]\<close> for each entry in order.
\<close>

definition mapColumns :: "(string \<times> string) list \<Rightarrow> CsvRow \<Rightarrow> (string \<rightharpoonup> string)" where
  "mapColumns columnMapping row =
     fold (\<lambda>(fld, csvHeader) mappedRow. mappedRow(fld := row csvHeader)) columnMapping Map.empty"

definition requiredFields :: "string list" where
  "requiredFields = [''species_name'', ''observation_timestamp'', ''latitude'', ''longitude'']"

definition requiredIssues :: "nat \<Rightarrow> (string \<rightharpoonup> string) \<Rightarrow> ValidationIssue list" where
  "requiredIssues rowIndex mappedRow =
     map (\<lambda>fld. \<lparr>row_index = rowIndex + 2, field = fld,
                  message = replaceFirstUnderscore fld @ '' is required'',
                  severity = SevError, suggested_correction = None\<rparr>)
       (filter (\<lambda>fld. \<not> truthy (mappedRow fld)) requiredFields)"

definition fixedOrNaN :: "BatchEnv \<Rightarrow> real option \<Rightarrow> string" where
  "fixedOrNaN env v = (case v of None \<Rightarrow> ''NaN'' | Some x \<Rightarrow> toFixedStr env x)"

text \<open>
  The body of \<open>csvData.forEach\<close>: the two arrays \<open>errors\<close> and \<open>validRows\<close> are passed in
  and returned. The row is pushed in the coordinate block, before the date block runs.
\<close>

definition coordinateBlock ::
  "BatchEnv \<Rightarrow> nat \<Rightarrow> (string \<rightharpoonup> string) \<Rightarrow> ValidationIssue list \<times> BatchObservation list
     \<Rightarrow> ValidationIssue list \<times> BatchObservation list" where
  "coordinateBlock env rowIndex mappedRow acc =
     (case acc of (errors, validRows) \<Rightarrow>
       if truthy (mappedRow ''latitude'') \<and> truthy (mappedRow ''longitude'') then
         (let la = parseFloat env (orEmpty (mappedRow ''latitude''));
              lo = parseFloat env (orEmpty (mappedRow ''longitude''))
          in case (la, lo) of
               (Some lat', Some lng') \<Rightarrow>
                 (let errors1 = errors @
                        (if lat' < - 90 \<or> lat' > 90
                         then [\<lparr>row_index = rowIndex + 2, field = ''latitude'',
                                 message = ''Latitude must be between -90 and 90'',
                                 severity = SevError, suggested_correction = None\<rparr>]
                         else []);
                      errors2 = errors1 @
                        (if lng' < - 180 \<or> lng' > 180
                         then [\<lparr>row_index = rowIndex + 2, field = ''longitude'',
                                 message = ''Longitude must be between -180 and 180'',
                                 severity = SevError, suggested_correction = None\<rparr>]
                         else [])
                  in (errors2,
                      if filter (\<lambda>e. row_index e = rowIndex + 2) errors2 = []
                      then validRows @
                             [\<lparr>user_id = orEmpty (currentUserId env),
                               species_name = orEmpty (mappedRow ''species_name''),
                               observation_timestamp = orEmpty (mappedRow ''observation_timestamp''),
                               latitude = lat', longitude = lng',
                               notes_field = orEmpty (mappedRow ''notes''),
                               habitat_type = orEmpty (mappedRow ''habitat_type''),
                               is_private = False\<rparr>]
                      else validRows))
             | _ \<Rightarrow>
                 (errors @
                    [\<lparr>row_index = rowIndex + 2, field = ''coordinates'',
                      message = ''Invalid coordinate format'', severity = SevError,
                      suggested_correction =
                        Some (''Try: '' @ fixedOrNaN env la @ '', '' @ fixedOrNaN env lo)\<rparr>],
                  validRows))
       else (errors, validRows))"

definition dateBlock ::
  "BatchEnv \<Rightarrow> nat \<Rightarrow> (string \<rightharpoonup> string) \<Rightarrow> ValidationIssue list" where
  "dateBlock env rowIndex mappedRow =
     (if truthy (mappedRow ''observation_timestamp'') then
        (case parseDate env (orEmpty (mappedRow ''observation_timestamp'')) of
           None \<Rightarrow>
             [\<lparr>row_index = rowIndex + 2, field = ''observation_timestamp'',
               message = ''Invalid date format'', severity = SevError,
               suggested_correction = None\<rparr>]
         | Some date \<Rightarrow>
             if date > now env then
               [\<lparr>row_index = rowIndex + 2, field = ''observation_timestamp'',
                 message = ''Observation date cannot be in the future'', severity = SevError,
                 suggested_correction = None\<rparr>]
             else if date < ninetyDaysAgo env then
               [\<lparr>row_index = rowIndex + 2, field = ''observation_timestamp'',
                 message = ''Observation date older than 90 days'', severity = SevWarning,
                 suggested_correction = None\<rparr>]
             else [])
      else [])"

definition validateRow ::
  "BatchEnv \<Rightarrow> (string \<times> string) list \<Rightarrow> nat \<times> CsvRow
     \<Rightarrow> ValidationIssue list \<times> BatchObservation list
     \<Rightarrow> ValidationIssue list \<times> BatchObservation list" where
  "validateRow env columnMapping indexed acc =
     (case indexed of (rowIndex, row) \<Rightarrow>
       case acc of (errors, validRows) \<Rightarrow>
         (let mappedRow = mapColumns columnMapping row;
              acc1 = (errors @ requiredIssues rowIndex mappedRow, validRows);
              acc2 = coordinateBlock env rowIndex mappedRow acc1
          in (fst acc2 @ dateBlock env rowIndex mappedRow, snd acc2)))"

definition validateAndTransform ::
  "BatchEnv \<Rightarrow> string option \<Rightarrow> CsvRow list \<Rightarrow> (string \<times> string) list
     \<Rightarrow> BatchValidationResult" where
  "validateAndTransform env file csvData columnMapping =
     (if file = None \<or> csvData = [] \<or> columnMapping = [] then
        \<lparr>valid_rows = [], validation_errors = [], duplicate_observations = []\<rparr>
      else
        (let acc = fold (validateRow env columnMapping) (enumerate 0 csvData) ([], [])
         in \<lparr>valid_rows = snd acc, validation_errors = fst acc,
             duplicate_observations = []\<rparr>))"

text \<open>
  \<open>submitBatch\<close>: the observations posted to \<open>/api/observations/batch/import\<close>, or \<open>None\<close>
  when the handler returns before that request. \<open>validationResponse\<close> is the answer of
  the server to the preceding \<open>/batch/validate\<close> request.
\<close>

definition submitBatch ::
  "BatchObservation list \<Rightarrow> BatchValidationResult \<Rightarrow> BatchObservation list option" where
  "submitBatch validObservations validationResponse =
     (if validObservations = [] then None
      else if filter (\<lambda>e. severity e = SevError) (validation_errors validationResponse) \<noteq> []
      then None
      else Some validObservations)"

section \<open>Temporal validation view (UV_TEMPORAL_VALIDATION)\<close>














section \<open>Conflict Detector\<close>

text \<open>
  Modelled from the spec: the observation rows the Conflict Detector (spec section 4.3)
  reads and writes. The repository has no code for the detector under src; only the tests
  and the views call it. The spatial tolerance is the rounded coordinate cell, the
  temporal tolerance the calendar day; \<open>content\<close> is all other material content of the
  observation, the exact coordinate and instant included.
\<close>

record Observation =
  obs_id :: nat
  owner :: string
  species :: string
  cell :: "int \<times> int"
  day :: int
  content :: string
  idempotency_key :: "string option"
  conflict_detected :: bool

text \<open>
  Modelled from the spec: the candidate observation (species, coordinate, timestamp,
  contributor id, optional client-generated idempotency key, other material content).
\<close>

record Candidate =
  cand_contributor :: string
  cand_species :: string
  cand_cell :: "int \<times> int"
  cand_day :: int
  cand_content :: string
  cand_key :: "string option"

text \<open>Modelled from the spec: the resolution options offered with a conflict.\<close>

datatype ResolutionOption = keep_existing | keep_new | merge_records

text \<open>
  Modelled from the spec: the three outcomes of the detector: a retry returns the
  existing record, a conflict returns the new record with the options, otherwise the new
  record is accepted normally.
\<close>

datatype SubmitResult =
  Retry Observation
  | ConflictDetected Observation "ResolutionOption list"
  | AcceptedNormally Observation

text \<open>Modelled from the spec: "an existing observation shares the same idempotency key".\<close>

definition sharesKey :: "Candidate \<Rightarrow> Observation \<Rightarrow> bool" where
  "sharesKey c e = (case cand_key c of None \<Rightarrow> False | Some k \<Rightarrow> idempotency_key e = Some k)"

text \<open>
  Modelled from the spec: an existing observation of the same contributor "within the
  spatial+temporal tolerance".
\<close>

definition withinTolerance :: "Candidate \<Rightarrow> Observation \<Rightarrow> bool" where
  "withinTolerance c e =
     (owner e = cand_contributor c \<and> cell e = cand_cell c \<and> day e = cand_day c)"

text \<open>Modelled from the spec: "differ in species or other material content".\<close>

definition differsMaterially :: "Candidate \<Rightarrow> Observation \<Rightarrow> bool" where
  "differsMaterially c e = (species e \<noteq> cand_species c \<or> content e \<noteq> cand_content c)"

text \<open>Modelled from the spec: the row created for an accepted candidate.\<close>

definition newObservation :: "Candidate \<Rightarrow> bool \<Rightarrow> Observation list \<Rightarrow> Observation" where
  "newObservation c flag store =
     \<lparr>obs_id = length store, owner = cand_contributor c, species = cand_species c,
      cell = cand_cell c, day = cand_day c, content = cand_content c,
      idempotency_key = cand_key c, conflict_detected = flag\<rparr>"

text \<open>
  Modelled from the spec: the behaviour of the Conflict Detector, its three cases in the
  order of section 4.3. The result and the rows after the submission.
\<close>

definition submitObservation ::
  "Candidate \<Rightarrow> Observation list \<Rightarrow> SubmitResult \<times> Observation list" where
  "submitObservation c store =
     (case find (sharesKey c) store of
        Some e \<Rightarrow> (Retry e, store)
      | None \<Rightarrow>
          if list_ex (\<lambda>e. withinTolerance c e \<and> differsMaterially c e) store then
            (let n = newObservation c True store
             in (ConflictDetected n [keep_existing, keep_new, merge_records], store @ [n]))
          else
            (let n = newObservation c False store
             in (AcceptedNormally n, store @ [n])))"

text \<open>Modelled from the spec: a sequence of submissions (the offline-queue replay).\<close>

definition submitAll :: "Candidate list \<Rightarrow> Observation list \<Rightarrow> Observation list" where
  "submitAll cs store = fold (\<lambda>c s. snd (submitObservation c s)) cs store"

section \<open>Credibility Ledger and verification\<close>

text \<open>
  Modelled from the spec: the verification states of section 4.5. The repository has no
  code for the Verification State Machine or the Credibility Ledger under src: the server
  only sets \<open>credibility_score: 0\<close> in every profile (\<open>generateUserProfileData\<close>), and
  the tests call a verify endpoint that the server does not define.
\<close>

datatype VerificationState =
  pending | verified | disputed | under_review | resolved_upheld | resolved_overturned









section \<open>Properties read off the results\<close>

text \<open>The issue the date block pushes for a row dated after \<open>now\<close>.\<close>

definition futureIssue :: "nat \<Rightarrow> ValidationIssue" where
  "futureIssue rowIndex =
     \<lparr>row_index = rowIndex + 2, field = ''observation_timestamp'',
      message = ''Observation date cannot be in the future'', severity = SevError,
      suggested_correction = None\<rparr>"

text \<open>
  A batch observation carries the coordinates of a CSV row as \<open>parseFloat\<close> read them:
  nothing has been added to them or rounded.
\<close>

definition rawCoordinates ::
  "BatchEnv \<Rightarrow> (string \<times> string) list \<Rightarrow> CsvRow \<Rightarrow> BatchObservation \<Rightarrow> bool" where
  "rawCoordinates env columnMapping row ob =
     (parseFloat env (orEmpty (mapColumns columnMapping row ''latitude'')) = Some (latitude ob) \<and>
      parseFloat env (orEmpty (mapColumns columnMapping row ''longitude'')) =
        Some (longitude ob))"

section \<open>Concrete inputs\<close>





definition overlapExample :: GeofenceRulesResponse where
  "overlapExample =
     \<lparr>rules =
        [\<lparr>zone_id = ''zone-a'', iucn_category = ''II'', geometry = ''POINT(20 10)'',
          buffer_zone_size = 500, blur_radius = 1000\<rparr>,
         \<lparr>zone_id = ''zone-b'', iucn_category = ''Ia'', geometry = ''POINT(20 10)'',
          buffer_zone_size = 500, blur_radius = 100\<rparr>],
      default_blur_radius = 500\<rparr>"

text \<open>
  A batch environment whose clock reads 2024-01-02T00:00:00Z, and a one-row CSV file with
  its column mapping.
\<close>

definition exampleEnv :: BatchEnv where
  "exampleEnv =
     \<lparr>parseFloat = (\<lambda>s. if s = ''37.7749'' then Some 37.7749
                          else if s = ''-122.4194'' then Some (- 122.4194) else None),
      parseDate = (\<lambda>s. if s = ''2024-01-01'' then Some 1704067200000
                         else if s = ''2024-01-03'' then Some 1704240000000 else None),
      toFixedStr = (\<lambda>x. ''0.000000''),
      now = 1704153600000,
      ninetyDaysAgo = 1696377600000,
      currentUserId = Some ''user-1''\<rparr>"

definition exampleMapping :: "(string \<times> string) list" where
  "exampleMapping =
     [(''species_name'', ''species''), (''latitude'', ''lat''), (''longitude'', ''lng''),
      (''observation_timestamp'', ''date'')]"

definition exampleRow :: "string \<Rightarrow> CsvRow" where
  "exampleRow d =
     [''species'' \<mapsto> ''Robin'', ''lat'' \<mapsto> ''37.7749'', ''lng'' \<mapsto> ''-122.4194'',
      ''date'' \<mapsto> d]"




text \<open>Two stored observations of one contributor, same cell and day, and a candidate.\<close>

definition robinRow :: Observation where
  "robinRow =
     \<lparr>obs_id = 0, owner = ''user-1'', species = ''robin'', cell = (377749, - 1224194),
      day = 19724, content = ''one bird'', idempotency_key = Some ''key-1'',
      conflict_detected = False\<rparr>"

definition wrenRow :: Observation where
  "wrenRow =
     \<lparr>obs_id = 1, owner = ''user-1'', species = ''wren'', cell = (377749, - 1224194),
      day = 19724, content = ''one bird'', idempotency_key = Some ''key-2'',
      conflict_detected = True\<rparr>"

definition wrenCandidate :: "string option \<Rightarrow> Candidate" where
  "wrenCandidate k =
     \<lparr>cand_contributor = ''user-1'', cand_species = ''wren'', cand_cell = (377749, - 1224194),
      cand_day = 19724, cand_content = ''one bird'', cand_key = k\<rparr>"

text \<open>
  A second sighting of the same species in the same cell on the same day, with other
  content and no idempotency key, and the row it is stored as after \<open>robinRow\<close>.
\<close>

definition robinAgainCandidate :: Candidate where
  "robinAgainCandidate =
     \<lparr>cand_contributor = ''user-1'', cand_species = ''robin'',
      cand_cell = (377749, - 1224194), cand_day = 19724, cand_content = ''two birds'',
      cand_key = None\<rparr>"

definition robinAgainRow :: Observation where
  "robinAgainRow =
     \<lparr>obs_id = 1, owner = ''user-1'', species = ''robin'', cell = (377749, - 1224194),
      day = 19724, content = ''two birds'', idempotency_key = None,
      conflict_detected = True\<rparr>"

text \<open>The number of stored rows that carry a given idempotency key.\<close>

definition rowsWithKey :: "string \<Rightarrow> Observation list \<Rightarrow> nat" where
  "rowsWithKey k store = length (filter (\<lambda>e. idempotency_key e = Some k) store)"






section \<open>Blurring: rounding and the size of the offset\<close>

lemma toFixed6_quantized: "\<exists>n::int. toFixed6 x = of_int n / 1000000"
  unfolding toFixed6_def
  by (metis of_int_minus minus_divide_left)

lemma round_half_near:
  fixes y :: real
  shows "\<bar>of_int \<lfloor>y * 1000000 + 1 / 2\<rfloor> / 1000000 - y\<bar> \<le> 1 / 2000000"
proof -
  define t where "t = y * 1000000 + 1 / 2"
  have 1: "of_int \<lfloor>t\<rfloor> \<le> t" and 2: "t < of_int \<lfloor>t\<rfloor> + 1"
    by linarith+
  have "\<bar>of_int \<lfloor>t\<rfloor> - y * 1000000\<bar> \<le> 1 / 2"
    using 1 2 unfolding t_def by linarith
  then have "\<bar>(of_int \<lfloor>t\<rfloor> - y * 1000000) / 1000000\<bar> \<le> (1 / 2) / 1000000"
    by (simp del: of_int_diff)
  then show ?thesis
    unfolding t_def by (simp add: diff_divide_distrib)
qed

lemma toFixed6_near: "\<bar>toFixed6 x - x\<bar> \<le> 1 / 2000000"
proof (cases "x < 0")
  case True
  have "\<bar>of_int \<lfloor>(- x) * 1000000 + 1 / 2\<rfloor> / 1000000 - (- x)\<bar> \<le> 1 / 2000000"
    by (rule round_half_near)
  with True show ?thesis by (simp add: toFixed6_def abs_if split: if_splits)
next
  case False
  with round_half_near [of x] show ?thesis by (simp add: toFixed6_def)
qed

text \<open>
  Claim C10. For every coordinate, every blur radius and every pair of random values,
  \<open>applyCoordinateBlurring\<close> returns a latitude and a longitude that are whole numbers of
  millionths of a degree (six decimal places). With blur radius 0 it returns the input
  rounded to six decimals, so each component moves by at most half a millionth.
\<close>

theorem applyCoordinateBlurring_six_decimals:
  "(\<exists>m n :: int. applyCoordinateBlurring c r rnd1 rnd2 =
        \<lparr>lat = of_int m / 1000000, lng = of_int n / 1000000\<rparr>) \<and>
   applyCoordinateBlurring c 0 rnd1 rnd2 = \<lparr>lat = toFixed6 (lat c), lng = toFixed6 (lng c)\<rparr> \<and>
   \<bar>lat (applyCoordinateBlurring c 0 rnd1 rnd2) - lat c\<bar> \<le> 1 / 2000000 \<and>
   \<bar>lng (applyCoordinateBlurring c 0 rnd1 rnd2) - lng c\<bar> \<le> 1 / 2000000"
proof -
  obtain m :: int where m: "toFixed6 (lat c + r / 111 * (rnd1 - 0.5)) = of_int m / 1000000"
    using toFixed6_quantized by blast
  obtain n :: int where n:
    "toFixed6 (lng c + r / (111 * cos (lat c * pi / 180)) * (rnd2 - 0.5)) = of_int n / 1000000"
    using toFixed6_quantized by blast
  have z: "applyCoordinateBlurring c 0 rnd1 rnd2 = \<lparr>lat = toFixed6 (lat c), lng = toFixed6 (lng c)\<rparr>"
    by (simp add: applyCoordinateBlurring_def)
  show ?thesis
    using m n z toFixed6_near by (auto simp: applyCoordinateBlurring_def Let_def)
qed

text \<open>
  Claim C2. The claim bounds the offset by the blur radius in metres. At the coordinate
  (0, 0), blur radius 500 and both random values 0, the function returns
  (-2.252252, -2.252252): the latitude moved by more than two degrees, which at the 111 km
  per degree the function itself divides by is 250 km, not at most 500 m. The radius is
  divided by kilometres per degree although it is a number of metres (the handler stores
  the same number as \<open>location_precision_meters\<close>).
\<close>

theorem applyCoordinateBlurring_offset_exceeds_radius:
  "applyCoordinateBlurring \<lparr>lat = 0, lng = 0\<rparr> 500 0 0 = \<lparr>lat = - 2.252252, lng = - 2.252252\<rparr> \<and>
   500 < \<bar>lat (applyCoordinateBlurring \<lparr>lat = 0, lng = 0\<rparr> 500 0 0) - 0\<bar> * 111000"
  by (simp add: applyCoordinateBlurring_def toFixed6_def)

section \<open>Geofence: what the first rule decides\<close>

lemma calculateDistance_same: "calculateDistance p p = 0"
  by (simp add: calculateDistance_def deg2rad_def atan2_def)




text \<open>
  Claim C3. Two zones are returned for the coordinate (10, 20), the first with blur
  radius 1000 and the second with blur radius 100, and the map is centred on the
  coordinate. The effect selects the first zone and sets the blur radius to 1000, where
  the claim lets the zone with the smallest blur radius (100) decide; and it flags the
  coordinate as buffer: the distance it measures is 0, every distance up to
  \<open>buffer_zone_size\<close> is buffer, and only distances above it are protected.
\<close>

theorem first_rule_decides_for_overlapping_zones:
  "processGeofenceRules (Some overlapExample) \<lparr>lat = 10, lng = 20\<rparr> \<lparr>lat = 10, lng = 20\<rparr>
     initialGeofenceState =
     \<lparr>blurRadius = 1000, isInProtectedZone = False, isInBufferZone = True,
      selectedZone = Some (hd (rules overlapExample))\<rparr> \<and>
   map zone_id (rules overlapExample) = [''zone-a'', ''zone-b''] \<and>
   map blur_radius (rules overlapExample) = [1000, 100]"
  by (simp add: processGeofenceRules_def overlapExample_def applyZoneStatus_def
      calculateDistance_same initialGeofenceState_def Let_def)

section \<open>Batch import: what a valid row carries\<close>

lemma coordinateBlock_valid:
  assumes "ob \<in> set (snd (coordinateBlock env i m (errs, vrs)))"
  shows "ob \<in> set vrs \<or>
     (\<not> BatchObservation.is_private ob \<and>
      parseFloat env (orEmpty (m ''latitude'')) = Some (latitude ob) \<and>
      parseFloat env (orEmpty (m ''longitude'')) = Some (longitude ob))"
proof (cases "truthy (m ''latitude'') \<and> truthy (m ''longitude'')")
  case False
  with assms show ?thesis by (simp add: coordinateBlock_def)
next
  case True
  show ?thesis
  proof (cases "parseFloat env (orEmpty (m ''latitude''))")
    case None
    with True assms show ?thesis by (simp add: coordinateBlock_def)
  next
    case la: (Some la)
    show ?thesis
    proof (cases "parseFloat env (orEmpty (m ''longitude''))")
      case None
      with True la assms show ?thesis by (simp add: coordinateBlock_def)
    next
      case lo: (Some lo)
      from True la lo assms show ?thesis
        by (simp add: coordinateBlock_def Let_def split: if_splits) auto
    qed
  qed
qed

lemma validateRow_valid:
  assumes "ob \<in> set (snd (validateRow env cm (i, row) acc))"
  shows "ob \<in> set (snd acc) \<or>
     (\<not> BatchObservation.is_private ob \<and> rawCoordinates env cm row ob)"
proof -
  obtain errs vrs where acc: "acc = (errs, vrs)" by (cases acc)
  from assms have "ob \<in> set (snd (coordinateBlock env i (mapColumns cm row)
        (errs @ requiredIssues i (mapColumns cm row), vrs)))"
    by (simp add: validateRow_def acc Let_def)
  from coordinateBlock_valid [OF this] show ?thesis
    by (simp add: acc rawCoordinates_def)
qed

lemma fold_validateRow_valid:
  assumes "ob \<in> set (snd (fold (validateRow env cm) irs acc))"
  shows "ob \<in> set (snd acc) \<or>
     (\<exists>ir \<in> set irs. \<not> BatchObservation.is_private ob \<and> rawCoordinates env cm (snd ir) ob)"
  using assms
proof (induction irs arbitrary: acc)
  case Nil
  then show ?case by simp
next
  case (Cons ir irs)
  obtain i row where ir: "ir = (i, row)" by (cases ir)
  from Cons.prems
  have "ob \<in> set (snd (fold (validateRow env cm) irs (validateRow env cm ir acc)))"
    by simp
  from Cons.IH [OF this] show ?case
  proof
    assume "ob \<in> set (snd (validateRow env cm ir acc))"
    with validateRow_valid [of ob env cm i row acc] show ?thesis
      by (auto simp: ir)
  next
    assume "\<exists>ir \<in> set irs. \<not> BatchObservation.is_private ob \<and>
      rawCoordinates env cm (snd ir) ob"
    then show ?thesis by auto
  qed
qed

lemma snd_enumerate_mem: "ir \<in> set (enumerate n xs) \<Longrightarrow> snd ir \<in> set xs"
  by (cases ir) (auto simp: in_set_enumerate_eq)

lemma validateAndTransform_valid:
  assumes "ob \<in> set (valid_rows (validateAndTransform env file csvData cm))"
  shows "\<not> BatchObservation.is_private ob \<and>
     (\<exists>row \<in> set csvData. rawCoordinates env cm row ob)"
proof -
  from assms have nz: "\<not> (file = None \<or> csvData = [] \<or> cm = [])"
    by (auto simp: validateAndTransform_def split: if_splits)
  with assms
  have "ob \<in> set (snd (fold (validateRow env cm) (enumerate 0 csvData) ([], [])))"
    by (simp add: validateAndTransform_def Let_def)
  from fold_validateRow_valid [OF this]
  obtain ir where ir: "ir \<in> set (enumerate 0 csvData)"
    and p: "\<not> BatchObservation.is_private ob" "rawCoordinates env cm (snd ir) ob"
    by auto
  from ir have "snd ir \<in> set csvData"
    by (rule snd_enumerate_mem)
  with p show ?thesis by blast
qed

subsection \<open>The example file\<close>

lemma example_mapped:
  "mapColumns exampleMapping (exampleRow d) =
     [''species_name'' \<mapsto> ''Robin'', ''latitude'' \<mapsto> ''37.7749'',
      ''longitude'' \<mapsto> ''-122.4194'', ''observation_timestamp'' \<mapsto> d]"
  by (simp add: mapColumns_def exampleMapping_def exampleRow_def)

lemma example_required:
  "d \<noteq> [] \<Longrightarrow> requiredIssues 0 (mapColumns exampleMapping (exampleRow d)) = []"
  by (simp add: example_mapped requiredIssues_def requiredFields_def truthy_def)

lemma example_coordinate:
  "coordinateBlock exampleEnv 0 (mapColumns exampleMapping (exampleRow d)) ([], []) =
     ([], [\<lparr>user_id = ''user-1'', species_name = ''Robin'', observation_timestamp = d,
       latitude = 37.7749, longitude = - 122.4194, notes_field = [], habitat_type = [],
       is_private = False\<rparr>])"
  by (simp add: example_mapped coordinateBlock_def truthy_def orEmpty_def exampleEnv_def Let_def)

lemma example_validate_past:
  "validateAndTransform exampleEnv (Some ''obs.csv'') [exampleRow ''2024-01-01''] exampleMapping =
     \<lparr>valid_rows =
        [\<lparr>user_id = ''user-1'', species_name = ''Robin'', observation_timestamp = ''2024-01-01'',
          latitude = 37.7749, longitude = - 122.4194, notes_field = [], habitat_type = [],
          is_private = False\<rparr>],
      validation_errors = [], duplicate_observations = []\<rparr>"
proof -
  have d: "dateBlock exampleEnv 0 (mapColumns exampleMapping (exampleRow ''2024-01-01'')) = []"
    by (simp add: example_mapped dateBlock_def truthy_def orEmpty_def exampleEnv_def)
  have m: "exampleMapping \<noteq> []"
    by (simp add: exampleMapping_def)
  show ?thesis
    by (simp add: validateAndTransform_def m validateRow_def example_required
        example_coordinate d Let_def)
qed

text \<open>
  Claim C9. Every observation that \<open>submitBatch\<close> posts to the import endpoint is one of
  the valid rows of \<open>validateAndTransform\<close>: it has \<open>is_private = false\<close>, and its latitude
  and longitude are the numbers \<open>parseFloat\<close> read from the cells of a row of the file,
  for all coordinate values. The validation takes no protected zone and nothing is added
  to the coordinates.
\<close>

theorem batch_rows_public_with_raw_coordinates:
  assumes "submitBatch (valid_rows (validateAndTransform env file csvData columnMapping)) resp =
             Some payload"
    and "ob \<in> set payload"
  shows "\<not> BatchObservation.is_private ob \<and>
     (\<exists>row \<in> set csvData. rawCoordinates env columnMapping row ob)"
proof -
  from assms(1)
  have "payload = valid_rows (validateAndTransform env file csvData columnMapping)"
    by (auto simp: submitBatch_def split: if_splits)
  with assms(2) validateAndTransform_valid show ?thesis by blast
qed

theorem batch_rows_public_with_raw_coordinates_witness:
  "submitBatch
     (valid_rows (validateAndTransform exampleEnv (Some ''obs.csv'')
        [exampleRow ''2024-01-01''] exampleMapping))
     \<lparr>valid_rows = [], validation_errors = [], duplicate_observations = []\<rparr> =
     Some [\<lparr>user_id = ''user-1'', species_name = ''Robin'',
            observation_timestamp = ''2024-01-01'', latitude = 37.7749,
            longitude = - 122.4194, notes_field = [], habitat_type = [],
            is_private = False\<rparr>] \<and>
   rawCoordinates exampleEnv exampleMapping (exampleRow ''2024-01-01'')
     \<lparr>user_id = ''user-1'', species_name = ''Robin'',
      observation_timestamp = ''2024-01-01'', latitude = 37.7749,
      longitude = - 122.4194, notes_field = [], habitat_type = [],
      is_private = False\<rparr>"
proof -
  let ?ob = "\<lparr>user_id = ''user-1'', species_name = ''Robin'',
      observation_timestamp = ''2024-01-01'', latitude = 37.7749,
      longitude = - 122.4194, notes_field = [], habitat_type = [],
      is_private = False\<rparr>"
  have s: "submitBatch
     (valid_rows (validateAndTransform exampleEnv (Some ''obs.csv'')
        [exampleRow ''2024-01-01''] exampleMapping))
     \<lparr>valid_rows = [], validation_errors = [], duplicate_observations = []\<rparr> = Some [?ob]"
    by (simp add: example_validate_past submitBatch_def)
  have m: "?ob \<in> set [?ob]" by simp
  from batch_rows_public_with_raw_coordinates [OF s m] s show ?thesis by simp
qed

section \<open>Future timestamps\<close>

lemma example_date_future:
  "dateBlock exampleEnv 0 (mapColumns exampleMapping (exampleRow ''2024-01-03'')) =
     [futureIssue 0]"
  by (simp add: example_mapped dateBlock_def truthy_def orEmpty_def exampleEnv_def
      futureIssue_def)

lemma example_validate_future:
  "validateAndTransform exampleEnv (Some ''obs.csv'') [exampleRow ''2024-01-03''] exampleMapping =
     \<lparr>valid_rows =
        [\<lparr>user_id = ''user-1'', species_name = ''Robin'', observation_timestamp = ''2024-01-03'',
          latitude = 37.7749, longitude = - 122.4194, notes_field = [], habitat_type = [],
          is_private = False\<rparr>],
      validation_errors = [futureIssue 0], duplicate_observations = []\<rparr>"
proof -
  have m: "exampleMapping \<noteq> []"
    by (simp add: exampleMapping_def)
  show ?thesis
    by (simp add: validateAndTransform_def m validateRow_def example_required
        example_coordinate example_date_future Let_def)
qed

text \<open>
  Claim C4. The clock of the batch view reads 2024-01-02T00:00:00Z and the only row of
  the file is dated 2024-01-03, a day in the future. The date block pushes the
  error-severity issue "Observation date cannot be in the future" for the row, but the
  coordinate block has already pushed the row to the valid rows, and \<open>submitBatch\<close> posts
  it to the import endpoint once the server's validation answers without an error: the
  future timestamp is flagged and yet submitted as a valid observation.
\<close>

theorem future_row_flagged_but_posted:
  "parseDate exampleEnv ''2024-01-03'' = Some 1704240000000 \<and>
   now exampleEnv < 1704240000000 \<and>
   validation_errors (validateAndTransform exampleEnv (Some ''obs.csv'')
      [exampleRow ''2024-01-03''] exampleMapping) = [futureIssue 0] \<and>
   submitBatch
     (valid_rows (validateAndTransform exampleEnv (Some ''obs.csv'')
        [exampleRow ''2024-01-03''] exampleMapping))
     \<lparr>valid_rows = [], validation_errors = [], duplicate_observations = []\<rparr> =
     Some [\<lparr>user_id = ''user-1'', species_name = ''Robin'',
            observation_timestamp = ''2024-01-03'', latitude = 37.7749,
            longitude = - 122.4194, notes_field = [], habitat_type = [],
            is_private = False\<rparr>]"
proof -
  have d: "parseDate exampleEnv ''2024-01-03'' = Some 1704240000000"
    by (simp add: exampleEnv_def)
  have n: "now exampleEnv < 1704240000000"
    by (simp add: exampleEnv_def)
  from d n show ?thesis
    by (simp add: example_validate_future submitBatch_def)
qed

section \<open>Retrospective observations and their justification\<close>











section \<open>Conflict Detector: retries and conflicts\<close>

lemma find_sharesKey:
  assumes "list_ex (sharesKey c) store"
  shows "\<exists>e \<in> set store. sharesKey c e \<and> find (sharesKey c) store = Some e"
proof -
  from assms obtain e where "find (sharesKey c) store = Some e"
    by (cases "find (sharesKey c) store") (auto simp: find_None_iff list_ex_iff)
  then show ?thesis
    by (auto simp: find_Some_iff)
qed

lemma submitObservation_retry:
  assumes "list_ex (sharesKey c) store"
  shows "\<exists>e \<in> set store. sharesKey c e \<and> submitObservation c store = (Retry e, store)"
  using find_sharesKey [OF assms] by (auto simp: submitObservation_def)

lemma submitAll_replicate_retry:
  assumes "list_ex (sharesKey c) store"
  shows "submitAll (replicate n c) store = store"
proof (induction n)
  case 0
  show ?case by (simp add: submitAll_def)
next
  case (Suc n)
  from submitObservation_retry [OF assms] have "snd (submitObservation c store) = store"
    by auto
  with Suc show ?case by (simp add: submitAll_def)
qed

lemma submitObservation_rowsWithKey:
  assumes "rowsWithKey k store \<le> 1"
  shows "rowsWithKey k (snd (submitObservation c store)) \<le> 1"
proof (cases "find (sharesKey c) store")
  case (Some e)
  with assms show ?thesis by (simp add: submitObservation_def)
next
  case None
  then have none: "\<forall>e \<in> set store. \<not> sharesKey c e"
    by (simp add: find_None_iff)
  show ?thesis
  proof (cases "cand_key c = Some k")
    case True
    with none have "\<forall>e \<in> set store. idempotency_key e \<noteq> Some k"
      by (simp add: sharesKey_def)
    then have "filter (\<lambda>e. idempotency_key e = Some k) store = []"
      by (simp add: filter_empty_conv)
    with None True show ?thesis
      by (simp add: submitObservation_def rowsWithKey_def newObservation_def Let_def)
  next
    case False
    with None assms show ?thesis
      by (simp add: submitObservation_def rowsWithKey_def newObservation_def Let_def)
  qed
qed

lemma submitAll_rowsWithKey:
  assumes "rowsWithKey k store \<le> 1"
  shows "rowsWithKey k (submitAll cs store) \<le> 1"
  using assms
proof (induction cs arbitrary: store)
  case Nil
  then show ?case by (simp add: submitAll_def)
next
  case (Cons c cs)
  from Cons.prems have "rowsWithKey k (snd (submitObservation c store)) \<le> 1"
    by (rule submitObservation_rowsWithKey)
  from Cons.IH [OF this] show ?case
    by (simp add: submitAll_def)
qed

text \<open>
  Claim C6. A submission whose idempotency key is the key of an existing observation is
  a retry: the result is an existing record with that key and the rows are unchanged,
  also after the same submission is repeated any number of times. And after any sequence
  of submissions into an empty store, no key is carried by more than one row.
\<close>

theorem same_key_is_retry_without_new_row:
  assumes "list_ex (sharesKey c) store"
  shows "(\<exists>e \<in> set store. sharesKey c e \<and> submitObservation c store = (Retry e, store)) \<and>
         submitAll (replicate n c) store = store \<and>
         rowsWithKey k (submitAll cs []) \<le> 1"
  using submitObservation_retry [OF assms] submitAll_replicate_retry [OF assms]
    submitAll_rowsWithKey [of k "[]" cs]
  by (simp add: rowsWithKey_def)

theorem same_key_is_retry_without_new_row_witness:
  "list_ex (sharesKey (wrenCandidate (Some ''key-2''))) [robinRow, wrenRow] \<and>
   submitObservation (wrenCandidate (Some ''key-2'')) [robinRow, wrenRow] =
     (Retry wrenRow, [robinRow, wrenRow]) \<and>
   submitAll (replicate 3 (wrenCandidate (Some ''key-2''))) [robinRow, wrenRow] =
     [robinRow, wrenRow]"
proof -
  have h: "list_ex (sharesKey (wrenCandidate (Some ''key-2''))) [robinRow, wrenRow]"
    by (simp add: sharesKey_def wrenCandidate_def wrenRow_def)
  have r: "submitObservation (wrenCandidate (Some ''key-2'')) [robinRow, wrenRow] =
     (Retry wrenRow, [robinRow, wrenRow])"
    by (simp add: submitObservation_def sharesKey_def wrenCandidate_def wrenRow_def robinRow_def)
  from same_key_is_retry_without_new_row [OF h, of 3] h r show ?thesis by simp
qed

lemma submitObservation_keeps: "set store \<subseteq> set (snd (submitObservation c store))"
  by (cases "find (sharesKey c) store") (auto simp: submitObservation_def Let_def)

lemma submitAll_keeps: "set store \<subseteq> set (submitAll cs store)"
proof (induction cs arbitrary: store)
  case Nil
  show ?case by (simp add: submitAll_def)
next
  case (Cons c cs)
  have "set store \<subseteq> set (snd (submitObservation c store))"
    by (rule submitObservation_keeps)
  also have "\<dots> \<subseteq> set (submitAll cs (snd (submitObservation c store)))"
    by (rule Cons.IH)
  finally show ?case by (simp add: submitAll_def)
qed

text \<open>
  Claim C7. The claim is the second case of section 4.3 ("Else, if ..."), so it is about
  a candidate whose idempotency key is not the key of an existing observation. For every
  such candidate that is within the spatial and temporal tolerance of one of the
  contributor's existing observations and differs from it in species or other material
  content: the submission stores the new observation with \<open>conflict_detected = true\<close> and
  returns it with the options keep_existing, keep_new and merge; and both records
  persist: each of them is among the rows, as it was stored, after any further sequence
  of submissions (no operation of the detector removes or rewrites a row; only a person's
  choice of a resolution, which is not an operation of the detector, comes after).
\<close>

theorem conflicting_submission_flagged_and_both_persist:
  assumes "\<not> list_ex (sharesKey c) store"
    and "e \<in> set store" and "withinTolerance c e" and "differsMaterially c e"
  shows "submitObservation c store =
           (ConflictDetected (newObservation c True store)
              [keep_existing, keep_new, merge_records],
            store @ [newObservation c True store]) \<and>
         conflict_detected (newObservation c True store) \<and>
         (\<forall>cs. e \<in> set (submitAll cs (snd (submitObservation c store))) \<and>
               newObservation c True store \<in>
                 set (submitAll cs (snd (submitObservation c store))))"
proof -
  from assms(1) have f: "find (sharesKey c) store = None"
    by (simp add: find_None_iff list_ex_iff)
  from assms(2,3,4) have x: "list_ex (\<lambda>e. withinTolerance c e \<and> differsMaterially c e) store"
    by (auto simp: list_ex_iff)
  from f x have r: "submitObservation c store =
      (ConflictDetected (newObservation c True store)
         [keep_existing, keep_new, merge_records],
       store @ [newObservation c True store])"
    by (simp add: submitObservation_def Let_def)
  have flag: "conflict_detected (newObservation c True store)"
    by (simp add: newObservation_def)
  have "\<forall>cs. e \<in> set (submitAll cs (store @ [newObservation c True store])) \<and>
      newObservation c True store \<in> set (submitAll cs (store @ [newObservation c True store]))"
  proof
    fix cs
    have "set (store @ [newObservation c True store]) \<subseteq>
        set (submitAll cs (store @ [newObservation c True store]))"
      by (rule submitAll_keeps)
    with assms(2)
    show "e \<in> set (submitAll cs (store @ [newObservation c True store])) \<and>
      newObservation c True store \<in> set (submitAll cs (store @ [newObservation c True store]))"
      by auto
  qed
  with r flag show ?thesis by simp
qed

theorem conflicting_submission_flagged_and_both_persist_witness:
  "\<not> list_ex (sharesKey robinAgainCandidate) [robinRow] \<and>
   withinTolerance robinAgainCandidate robinRow \<and>
   differsMaterially robinAgainCandidate robinRow \<and>
   submitObservation robinAgainCandidate [robinRow] =
     (ConflictDetected robinAgainRow [keep_existing, keep_new, merge_records],
      [robinRow, robinAgainRow]) \<and>
   robinRow \<in> set (submitAll [wrenCandidate (Some ''key-2'')]
      (snd (submitObservation robinAgainCandidate [robinRow]))) \<and>
   robinAgainRow \<in> set (submitAll [wrenCandidate (Some ''key-2'')]
      (snd (submitObservation robinAgainCandidate [robinRow])))"
proof -
  have a: "\<not> list_ex (sharesKey robinAgainCandidate) [robinRow]"
    by (simp add: sharesKey_def robinAgainCandidate_def)
  have b: "robinRow \<in> set [robinRow]" by simp
  have c: "withinTolerance robinAgainCandidate robinRow"
    by (simp add: withinTolerance_def robinAgainCandidate_def robinRow_def)
  have d: "differsMaterially robinAgainCandidate robinRow"
    by (simp add: differsMaterially_def robinAgainCandidate_def robinRow_def)
  have n: "newObservation robinAgainCandidate True [robinRow] = robinAgainRow"
    by (simp add: newObservation_def robinAgainCandidate_def robinAgainRow_def)
  note t = conflicting_submission_flagged_and_both_persist [OF a b c d]
  from t n have r: "submitObservation robinAgainCandidate [robinRow] =
     (ConflictDetected robinAgainRow [keep_existing, keep_new, merge_records],
      [robinRow, robinAgainRow])"
    by simp
  from t have "\<forall>cs. robinRow \<in> set (submitAll cs
        (snd (submitObservation robinAgainCandidate [robinRow]))) \<and>
      newObservation robinAgainCandidate True [robinRow] \<in> set (submitAll cs
        (snd (submitObservation robinAgainCandidate [robinRow])))"
    by blast
  then have p: "robinRow \<in> set (submitAll [wrenCandidate (Some ''key-2'')]
        (snd (submitObservation robinAgainCandidate [robinRow]))) \<and>
      robinAgainRow \<in> set (submitAll [wrenCandidate (Some ''key-2'')]
        (snd (submitObservation robinAgainCandidate [robinRow])))"
    unfolding n by blast
  from a c d r p show ?thesis by blast
qed

section \<open>Verification and the credit of the owner\<close>




end
